theory Spec2Isabelle
  imports Complex_Main "HOL-Library.Multiset" "HOL-Library.Product_Lexorder"
begin

section \<open>Values, SQL fragments and the store interface\<close>

text \<open>
  The model follows \<^verbatim>\<open>server/src/services/parcelService.ts\<close>, the routes in
  \<^verbatim>\<open>routes/parcels\<close> and the zod schemas in \<^verbatim>\<open>validation/schemas\<close>.
  A JavaScript \<^verbatim>\<open>number\<close> is a \<open>real\<close> (finite values only: \<^verbatim>\<open>NaN\<close> and the
  infinities are not modelled, rounding is not modelled); \<^verbatim>\<open>undefined\<close> and SQL
  \<^verbatim>\<open>NULL\<close> are \<open>None\<close>.
\<close>

datatype sqlval = VNum real | VBool bool | VStr string | VStrs "string list"

text \<open>
  A piece of SQL text built by a template literal: literal text and the placeholders
  \<^verbatim>\<open>$n\<close> that were interpolated into it. \<^verbatim>\<open>`p.area_acres >= $${paramIndex++}`\<close>
  with \<^verbatim>\<open>paramIndex = 3\<close> is \<open>[Txt ''p.area_acres >= '', Ph 3, Txt '''']\<close>.
\<close>

datatype tok = Txt string | Ph nat

type_synonym frag = "tok list"

fun placeholders :: "frag \<Rightarrow> nat list" where
  "placeholders [] = []"
| "placeholders (Txt s # ts) = placeholders ts"
| "placeholders (Ph i # ts) = i # placeholders ts"

datatype error = ValidationError | BadRequest string | StoreError

text \<open>
  The SQL texts handed to \<^verbatim>\<open>prisma.$queryRawUnsafe\<close>, one constructor per template of
  \<^verbatim>\<open>parcelService.ts\<close>; the interpolated parts are the arguments: the list of
  conditions joined with \<^verbatim>\<open>' AND '\<close> into the WHERE clause, and the placeholder
  indices written after \<^verbatim>\<open>LIMIT\<close> and \<^verbatim>\<open>OFFSET\<close>.
\<close>

datatype query =
    BBoxListSQL
  | GeoJSONSQL
  | CountSQL "frag list"
  | SearchSQL "frag list" nat nat
  | NearSQL
  | StatsSQL
  | ZoningSQL

text \<open>A store round trip: the SQL text and the values bound to \<^verbatim>\<open>$1, $2, ...\<close>.\<close>

type_synonym call = "query \<times> sqlval list"

section \<open>The filter compiler of \<^verbatim>\<open>searchParcels\<close>\<close>

record ParcelSearchParams =
  minAreaAcres :: "real option"
  maxAreaAcres :: "real option"
  minPrice :: "real option"
  maxPrice :: "real option"
  zoningCodes :: "string list option"
  soilTypes :: "string list option"
  croplandClasses :: "string list option"
  hasWaterAccess :: "bool option"
  hasRoadAccess :: "bool option"
  city :: "string option"
  limit :: "nat option"
  offset :: "nat option"

text \<open>
  The three local variables of \<^verbatim>\<open>searchParcels\<close> that the WHERE builder mutates
  (\<open>vals\<close> is the source's \<^verbatim>\<open>values\<close>).
\<close>

record builder =
  conditions :: "frag list"
  vals :: "sqlval list"
  paramIndex :: nat

text \<open>
  \<^verbatim>\<open>conditions.push(`<pre>$${paramIndex++}<post>`); values.push(v);\<close>
\<close>

definition push :: "string \<Rightarrow> string \<Rightarrow> sqlval \<Rightarrow> builder \<Rightarrow> builder" where
  "push pre post v b =
     \<lparr>conditions = conditions b @ [[Txt pre, Ph (paramIndex b), Txt post]],
      vals = vals b @ [v],
      paramIndex = paramIndex b + 1\<rparr>"

text \<open>
  The guards of the ten \<^verbatim>\<open>if\<close> statements. Each gives the value to bind when the
  guard holds and \<open>None\<close> when it does not:
  \<^verbatim>\<open>x !== undefined\<close>, \<^verbatim>\<open>xs && xs.length > 0\<close>, and \<^verbatim>\<open>if (city)\<close> (a string is
  falsy when it is absent or empty), which binds \<^verbatim>\<open>`%${city}%`\<close>.
\<close>

definition ifDefined :: "('a \<Rightarrow> sqlval) \<Rightarrow> 'a option \<Rightarrow> sqlval option" where
  "ifDefined mk x = (case x of None \<Rightarrow> None | Some v \<Rightarrow> Some (mk v))"

definition ifNonEmpty :: "string list option \<Rightarrow> sqlval option" where
  "ifNonEmpty xs =
     (case xs of None \<Rightarrow> None
      | Some ys \<Rightarrow> if length ys > 0 then Some (VStrs ys) else None)"

definition ifTruthy :: "string option \<Rightarrow> sqlval option" where
  "ifTruthy c =
     (case c of None \<Rightarrow> None
      | Some s \<Rightarrow> if s \<noteq> [] then Some (VStr (''%'' @ s @ ''%'')) else None)"

definition pushWhen :: "sqlval option \<Rightarrow> string \<Rightarrow> string \<Rightarrow> builder \<Rightarrow> builder" where
  "pushWhen g pre post b = (case g of None \<Rightarrow> b | Some v \<Rightarrow> push pre post v b)"

text \<open>Lines 239 to 283 of \<^verbatim>\<open>searchParcels\<close>: "Build WHERE conditions dynamically".\<close>

definition buildWhere :: "ParcelSearchParams \<Rightarrow> builder" where
  "buildWhere params =
    (let b0 = \<lparr>conditions = [[Txt ''1=1'']], vals = [], paramIndex = 1\<rparr>;
         b1 = pushWhen (ifDefined VNum (minAreaAcres params)) ''p.area_acres >= '' '''' b0;
         b2 = pushWhen (ifDefined VNum (maxAreaAcres params)) ''p.area_acres <= '' '''' b1;
         b3 = pushWhen (ifDefined VNum (minPrice params)) ''v.estimated_price >= '' '''' b2;
         b4 = pushWhen (ifDefined VNum (maxPrice params)) ''v.estimated_price <= '' '''' b3;
         b5 = pushWhen (ifNonEmpty (zoningCodes params)) ''ld.zoning_code = ANY('' '')'' b4;
         b6 = pushWhen (ifNonEmpty (soilTypes params)) ''ld.soil_type = ANY('' '')'' b5;
         b7 = pushWhen (ifNonEmpty (croplandClasses params)) ''ld.cropland_class = ANY('' '')'' b6;
         b8 = pushWhen (ifDefined VBool (hasWaterAccess params)) ''ld.has_water_access = '' '''' b7;
         b9 = pushWhen (ifDefined VBool (hasRoadAccess params)) ''ld.has_road_access = '' '''' b8
     in pushWhen (ifTruthy (city params)) ''LOWER(p.city) LIKE LOWER('' '')'' b9)"

text \<open>
  The two calls of \<^verbatim>\<open>searchParcels\<close>. The count query is given \<^verbatim>\<open>...values\<close>; the row
  query ends in \<^verbatim>\<open>LIMIT $${paramIndex++} OFFSET $${paramIndex++}\<close> and is given
  \<^verbatim>\<open>...values, limit, offset\<close>, with the defaults \<^verbatim>\<open>limit = 100, offset = 0\<close> of the
  destructuring.
\<close>

definition effLimit :: "ParcelSearchParams \<Rightarrow> nat" where
  "effLimit params = (case limit params of None \<Rightarrow> 100 | Some l \<Rightarrow> l)"

definition effOffset :: "ParcelSearchParams \<Rightarrow> nat" where
  "effOffset params = (case offset params of None \<Rightarrow> 0 | Some k \<Rightarrow> k)"

definition countCall :: "ParcelSearchParams \<Rightarrow> call" where
  "countCall params = (let b = buildWhere params in (CountSQL (conditions b), vals b))"

definition rowsCall :: "ParcelSearchParams \<Rightarrow> call" where
  "rowsCall params =
     (let b = buildWhere params
      in (SearchSQL (conditions b) (paramIndex b) (paramIndex b + 1),
          vals b @ [VNum (real (effLimit params)), VNum (real (effOffset params))]))"

section \<open>Store rows and the row-to-item mapping\<close>

text \<open>
  The rows that \<^verbatim>\<open>$queryRawUnsafe<Array<{...}>>\<close> is declared to return for the list
  queries (bounding-box list, search page, near-point), with the column names of the
  SELECT lists.
\<close>

record row =
  r_id :: string
  r_parcel_id :: string
  r_address :: "string option"
  r_city :: "string option"
  r_area_sqft :: real
  r_area_acres :: real
  r_centroid_lat :: "real option"
  r_centroid_lng :: "real option"
  r_estimated_price :: "real option"
  r_zoning_code :: "string option"

text \<open>A near-point row: the same columns and \<^verbatim>\<open>distance_meters\<close>.\<close>

type_synonym nrow = "row \<times> real"

text \<open>A row of the GeoJSON query; \<open>f_geojson\<close> is the text made by \<^verbatim>\<open>ST_AsGeoJSON\<close>.\<close>

record frow =
  f_id :: string
  f_parcel_id :: string
  f_geojson :: "string option"
  f_address :: "string option"
  f_city :: "string option"
  f_area_acres :: real
  f_estimated_price :: "real option"
  f_zoning_code :: "string option"
  f_soil_type :: "string option"

record stats_row =
  total_parcels :: nat
  total_area_acres :: "real option"
  avg_price :: "real option"
  min_price :: "real option"
  max_price :: "real option"
  avg_area_acres :: "real option"

record ParcelListItem =
  i_id :: string
  i_parcelId :: string
  i_address :: "string option"
  i_city :: "string option"
  i_areaSqft :: real
  i_areaAcres :: real
  i_centroidLat :: real
  i_centroidLng :: real
  i_estimatedPrice :: "real option"
  i_zoningCode :: "string option"

record FeatureProperties =
  fp_id :: string
  fp_parcelId :: string
  fp_parcelNumber :: string
  fp_address :: "string option"
  fp_city :: "string option"
  fp_areaAcres :: real
  fp_estimatedPrice :: "real option"
  fp_zoning :: "string option"
  fp_zoningCode :: "string option"
  fp_soilType :: "string option"

record Feature =
  ft_id :: string
  ft_geometry :: "string option"
  ft_properties :: FeatureProperties

record ParcelStats =
  totalParcels :: nat
  totalAreaAcres :: real
  averagePrice :: real
  minPriceStat :: real
  maxPriceStat :: real
  averageAreaAcres :: real
  zoningBreakdown :: "(string \<times> nat) list"

text \<open>
  JavaScript's \<^verbatim>\<open>x || undefined\<close> and \<^verbatim>\<open>x || 0\<close>: the right operand is taken when
  \<open>x\<close> is falsy, that is \<^verbatim>\<open>null\<close>, the number \<open>0\<close> or the empty string.
\<close>

definition numOrUndefined :: "real option \<Rightarrow> real option" where
  "numOrUndefined x = (case x of None \<Rightarrow> None | Some v \<Rightarrow> if v = 0 then None else Some v)"

definition strOrUndefined :: "string option \<Rightarrow> string option" where
  "strOrUndefined x = (case x of None \<Rightarrow> None | Some s \<Rightarrow> if s = [] then None else Some s)"

definition numOrZero :: "real option \<Rightarrow> real" where
  "numOrZero x = (case x of None \<Rightarrow> 0 | Some v \<Rightarrow> if v = 0 then 0 else v)"

text \<open>
  The object literal inside \<^verbatim>\<open>parcels.map((p) => ({...}))\<close>, written out three times
  in the source with the same fields (\<^verbatim>\<open>getParcelsInBBox\<close>, \<^verbatim>\<open>searchParcels\<close>,
  \<^verbatim>\<open>getParcelsNearPoint\<close>).
\<close>

definition listItem :: "row \<Rightarrow> ParcelListItem" where
  "listItem p =
     \<lparr>i_id = r_id p,
      i_parcelId = r_parcel_id p,
      i_address = strOrUndefined (r_address p),
      i_city = strOrUndefined (r_city p),
      i_areaSqft = r_area_sqft p,
      i_areaAcres = r_area_acres p,
      i_centroidLat = numOrZero (r_centroid_lat p),
      i_centroidLng = numOrZero (r_centroid_lng p),
      i_estimatedPrice = numOrUndefined (r_estimated_price p),
      i_zoningCode = strOrUndefined (r_zoning_code p)\<rparr>"

text \<open>The near-point item: the same fields and \<^verbatim>\<open>distanceMeters: p.distance_meters\<close>.\<close>

definition nearItem :: "nrow \<Rightarrow> ParcelListItem \<times> real" where
  "nearItem p = (listItem (fst p), snd p)"

text \<open>
  The feature literal of \<^verbatim>\<open>getParcelGeoJSON\<close>. The value of
  \<^verbatim>\<open>f.geojson ? JSON.parse(f.geojson) : null\<close> is represented by the JSON text it
  was parsed from.
\<close>

definition feature :: "frow \<Rightarrow> Feature" where
  "feature f =
     \<lparr>ft_id = f_id f,
      ft_geometry = strOrUndefined (f_geojson f),
      ft_properties =
        \<lparr>fp_id = f_id f,
         fp_parcelId = f_parcel_id f,
         fp_parcelNumber = f_parcel_id f,
         fp_address = f_address f,
         fp_city = f_city f,
         fp_areaAcres = f_area_acres f,
         fp_estimatedPrice = f_estimated_price f,
         fp_zoning = f_zoning_code f,
         fp_zoningCode = f_zoning_code f,
         fp_soilType = f_soil_type f\<rparr>\<rparr>"

section \<open>The service operations\<close>

text \<open>
  \<^verbatim>\<open>prisma.$queryRawUnsafe<T>\<close>, one field per result type \<open>T\<close> used by the service.
  A rejected promise is \<open>Inl\<close>. The count and the statistics queries are aggregates
  without GROUP BY, which return one row: the field gives that row
  (\<^verbatim>\<open>countResult[0].count\<close>, \<^verbatim>\<open>stats[0]\<close>).
\<close>

record store =
  queryList :: "call \<Rightarrow> error + row list"
  queryFeatures :: "call \<Rightarrow> error + frow list"
  queryNear :: "call \<Rightarrow> error + nrow list"
  queryCount :: "call \<Rightarrow> error + nat"
  queryStats :: "call \<Rightarrow> error + stats_row"
  queryZoning :: "call \<Rightarrow> error + (string \<times> nat) list"

record BBoxQuery =
  north :: real
  south :: real
  east :: real
  west :: real
  zoom :: "real option"

text \<open>
  Every operation returns the store calls it issued, in order, and its result; an
  exception thrown by an awaited call ends the operation with that error.
\<close>

definition getParcelsInBBox ::
  "store \<Rightarrow> BBoxQuery \<Rightarrow> call list \<times> (error + ParcelListItem list)" where
  "getParcelsInBBox st bbox =
     (let c = (BBoxListSQL,
               [VNum (west bbox), VNum (south bbox), VNum (east bbox), VNum (north bbox)])
      in case queryList st c of
           Inl e \<Rightarrow> ([c], Inl e)
         | Inr parcels \<Rightarrow> ([c], Inr (map listItem parcels)))"

text \<open>
  \<^verbatim>\<open>const { ..., zoom = 12 } = bbox;\<close>
  \<^verbatim>\<open>const tolerance = zoom < 10 ? 0.001 : zoom < 14 ? 0.0001 : 0.00001;\<close>
\<close>

definition tolerance :: "real option \<Rightarrow> real" where
  "tolerance z =
     (let zoom = (case z of None \<Rightarrow> 12 | Some v \<Rightarrow> v)
      in if zoom < 10 then 0.001 else if zoom < 14 then 0.0001 else 0.00001)"

definition getParcelGeoJSON ::
  "store \<Rightarrow> BBoxQuery \<Rightarrow> call list \<times> (error + Feature list)" where
  "getParcelGeoJSON st bbox =
     (let c = (GeoJSONSQL,
               [VNum (tolerance (zoom bbox)),
                VNum (west bbox), VNum (south bbox), VNum (east bbox), VNum (north bbox)])
      in case queryFeatures st c of
           Inl e \<Rightarrow> ([c], Inl e)
         | Inr features \<Rightarrow> ([c], Inr (map feature features)))"

definition searchParcels ::
  "store \<Rightarrow> ParcelSearchParams \<Rightarrow> call list \<times> (error + ParcelListItem list \<times> nat)" where
  "searchParcels st params =
     (let cc = countCall params
      in case queryCount st cc of
           Inl e \<Rightarrow> ([cc], Inl e)
         | Inr total' \<Rightarrow>
             (let rc = rowsCall params
              in case queryList st rc of
                   Inl e \<Rightarrow> ([cc, rc], Inl e)
                 | Inr parcels \<Rightarrow> ([cc, rc], Inr (map listItem parcels, total'))))"

text \<open>\<^verbatim>\<open>getParcelsNearPoint(lng, lat, radiusMeters, limit = 20)\<close>\<close>

definition getParcelsNearPoint ::
  "store \<Rightarrow> real \<Rightarrow> real \<Rightarrow> real \<Rightarrow> real option \<Rightarrow>
     call list \<times> (error + (ParcelListItem \<times> real) list)" where
  "getParcelsNearPoint st lng lat radiusMeters lmt =
     (let c = (NearSQL,
               [VNum lng, VNum lat, VNum radiusMeters,
                VNum (case lmt of None \<Rightarrow> 20 | Some l \<Rightarrow> l)])
      in case queryNear st c of
           Inl e \<Rightarrow> ([c], Inl e)
         | Inr parcels \<Rightarrow> ([c], Inr (map nearItem parcels)))"

definition getParcelStats :: "store \<Rightarrow> call list \<times> (error + ParcelStats)" where
  "getParcelStats st =
     (let c1 = (StatsSQL, [])
      in case queryStats st c1 of
           Inl e \<Rightarrow> ([c1], Inl e)
         | Inr stats \<Rightarrow>
             (let c2 = (ZoningSQL, [])
              in case queryZoning st c2 of
                   Inl e \<Rightarrow> ([c1, c2], Inl e)
                 | Inr zoning \<Rightarrow>
                     ([c1, c2],
                      Inr \<lparr>totalParcels = total_parcels stats,
                           totalAreaAcres = numOrZero (total_area_acres stats),
                           averagePrice = numOrZero (avg_price stats),
                           minPriceStat = numOrZero (min_price stats),
                           maxPriceStat = numOrZero (max_price stats),
                           averageAreaAcres = numOrZero (avg_area_acres stats),
                           zoningBreakdown = zoning\<rparr>)))"

section \<open>Validation schemas and routes\<close>

text \<open>
  A field of \<^verbatim>\<open>req.query\<close> after the \<^verbatim>\<open>Number(...)\<close> of \<^verbatim>\<open>z.coerce.number()\<close>;
  an absent field is \<open>None\<close>. \<open>NotANumber\<close> stands for every result that is not a
  finite number.
\<close>

datatype coerced = NotANumber | Number real

record BBoxRaw =
  q_north :: "coerced option"
  q_south :: "coerced option"
  q_east :: "coerced option"
  q_west :: "coerced option"
  q_zoom :: "coerced option"

text \<open>
  \<^verbatim>\<open>z.coerce.number().min(lo).max(hi)\<close>: an absent field coerces to \<^verbatim>\<open>NaN\<close>, which
  is not a number for zod. \<^verbatim>\<open>.optional()\<close> accepts the absent field.
\<close>

definition zNumber :: "real \<Rightarrow> real \<Rightarrow> coerced option \<Rightarrow> real option" where
  "zNumber lo hi x =
     (case x of
        None \<Rightarrow> None
      | Some NotANumber \<Rightarrow> None
      | Some (Number v) \<Rightarrow> if lo \<le> v \<and> v \<le> hi then Some v else None)"

definition zOptional ::
  "(coerced option \<Rightarrow> real option) \<Rightarrow> coerced option \<Rightarrow> real option option" where
  "zOptional p x =
     (case x of
        None \<Rightarrow> Some None
      | Some c \<Rightarrow> (case p x of None \<Rightarrow> None | Some v \<Rightarrow> Some (Some v)))"

definition bboxQuerySchema :: "BBoxRaw \<Rightarrow> BBoxQuery option" where
  "bboxQuerySchema raw =
     (case zNumber (- 90) 90 (q_north raw) of None \<Rightarrow> None | Some n \<Rightarrow>
     (case zNumber (- 90) 90 (q_south raw) of None \<Rightarrow> None | Some s \<Rightarrow>
     (case zNumber (- 180) 180 (q_east raw) of None \<Rightarrow> None | Some e \<Rightarrow>
     (case zNumber (- 180) 180 (q_west raw) of None \<Rightarrow> None | Some w \<Rightarrow>
     (case zOptional (zNumber 0 22) (q_zoom raw) of None \<Rightarrow> None | Some z \<Rightarrow>
        Some \<lparr>north = n, south = s, east = e, west = w, zoom = z\<rparr>)))))"

text \<open>
  Modelled from the spec: the \<^verbatim>\<open>validate(schema, source)\<close> middleware of
  \<^verbatim>\<open>middleware/errorHandler\<close> is not among the source files. Section 7 of the
  specification: a ValidationError is "malformed/out-of-range input, caught before any
  store call". So a request the schema rejects ends with \<open>ValidationError\<close> and no
  call, and the handler runs on what the schema accepted.
\<close>

definition validate ::
  "('raw \<Rightarrow> 'a option) \<Rightarrow> ('a \<Rightarrow> call list \<times> (error + 'b)) \<Rightarrow> 'raw \<Rightarrow>
     call list \<times> (error + 'b)" where
  "validate schema handler raw =
     (case schema raw of None \<Rightarrow> ([], Inl ValidationError) | Some parsed \<Rightarrow> handler parsed)"

text \<open>
  \<^verbatim>\<open>GET /api/parcels/bbox\<close> and \<^verbatim>\<open>GET /api/parcels/list\<close>: the response carries
  \<^verbatim>\<open>data\<close> and \<^verbatim>\<open>count\<close>. (\<^verbatim>\<open>optionalAuth\<close> never rejects a request and is left
  out.)
\<close>

definition bboxRoute :: "store \<Rightarrow> BBoxRaw \<Rightarrow> call list \<times> (error + Feature list \<times> nat)" where
  "bboxRoute st =
     validate bboxQuerySchema
       (\<lambda>bbox. case getParcelGeoJSON st bbox of
                 (cs, Inl e) \<Rightarrow> (cs, Inl e)
               | (cs, Inr geojson) \<Rightarrow> (cs, Inr (geojson, length geojson)))"

definition listRoute ::
  "store \<Rightarrow> BBoxRaw \<Rightarrow> call list \<times> (error + ParcelListItem list \<times> nat)" where
  "listRoute st =
     validate bboxQuerySchema
       (\<lambda>bbox. case getParcelsInBBox st bbox of
                 (cs, Inl e) \<Rightarrow> (cs, Inl e)
               | (cs, Inr parcels) \<Rightarrow> (cs, Inr (parcels, length parcels)))"

record Pagination =
  pag_total :: nat
  pag_limit :: nat
  pag_offset :: nat
  pag_hasMore :: bool

record SearchResponse =
  sr_data :: "ParcelListItem list"
  sr_pagination :: Pagination

text \<open>\<^verbatim>\<open>params.limit || 100\<close>, \<^verbatim>\<open>params.offset || 0\<close>\<close>

definition natOr :: "nat \<Rightarrow> nat option \<Rightarrow> nat" where
  "natOr d x = (case x of None \<Rightarrow> d | Some v \<Rightarrow> if v = 0 then d else v)"

text \<open>
  The handler of \<^verbatim>\<open>POST /api/parcels/search\<close>, on the body that
  \<^verbatim>\<open>validate(parcelSearchSchema, 'body')\<close> let through.
\<close>

definition searchRoute ::
  "store \<Rightarrow> ParcelSearchParams \<Rightarrow> call list \<times> (error + SearchResponse)" where
  "searchRoute st params =
     (case searchParcels st params of
        (cs, Inl e) \<Rightarrow> (cs, Inl e)
      | (cs, Inr (parcels, total')) \<Rightarrow>
          (cs, Inr \<lparr>sr_data = parcels,
                    sr_pagination =
                      \<lparr>pag_total = total',
                       pag_limit = natOr 100 (limit params),
                       pag_offset = natOr 0 (offset params),
                       pag_hasMore = (natOr 0 (offset params) + length parcels < total')\<rparr>\<rparr>))"

text \<open>
  \<^verbatim>\<open>GET /api/parcels/nearby\<close>. The query fields are strings; \<^verbatim>\<open>!lat\<close> holds for an
  absent or empty one. \<^verbatim>\<open>parseFloat\<close> and \<^verbatim>\<open>parseInt(_, 10)\<close> are parameters of the
  model (inputs they map to \<^verbatim>\<open>NaN\<close> are not covered).
\<close>

record NearbyQuery =
  nq_lat :: "string option"
  nq_lng :: "string option"
  nq_radius :: "string option"
  nq_limit :: "string option"

definition falsy :: "string option \<Rightarrow> bool" where
  "falsy x = (case x of None \<Rightarrow> True | Some s \<Rightarrow> s = [])"

definition nearbyRoute ::
  "(string \<Rightarrow> real) \<Rightarrow> (string \<Rightarrow> real) \<Rightarrow> store \<Rightarrow> NearbyQuery \<Rightarrow>
     call list \<times> (error + (ParcelListItem \<times> real) list \<times> nat)" where
  "nearbyRoute parseFloat parseInt st q =
     (if falsy (nq_lat q) \<or> falsy (nq_lng q)
      then ([], Inl (BadRequest ''lat and lng are required''))
      else
        case getParcelsNearPoint st
               (parseFloat (case nq_lng q of None \<Rightarrow> [] | Some s \<Rightarrow> s))
               (parseFloat (case nq_lat q of None \<Rightarrow> [] | Some s \<Rightarrow> s))
               (case nq_radius q of None \<Rightarrow> 1000 | Some s \<Rightarrow> parseFloat s)
               (Some (case nq_limit q of None \<Rightarrow> 20 | Some s \<Rightarrow> parseInt s)) of
          (cs, Inl e) \<Rightarrow> (cs, Inl e)
        | (cs, Inr parcels) \<Rightarrow> (cs, Inr (parcels, length parcels)))"

section \<open>The store: tables and the meaning of the SQL texts\<close>

text \<open>
  The tables of the migration that the queries read, with the columns they use. The
  order of a table's list is the order in which the store happens to scan it: SQL leaves
  it unspecified, and it can differ between two invocations over the same content.
  \<open>p_geometry\<close> is the MultiPolygon column added by the PostGIS migration.
\<close>

type_synonym geom = "(real \<times> real) list list list"

record parcel =
  p_id :: string
  p_parcel_id :: string
  p_address :: "string option"
  p_city :: "string option"
  p_area_sqft :: real
  p_area_acres :: real
  p_centroid_lat :: "real option"
  p_centroid_lng :: "real option"
  p_geometry :: "geom option"

record land =
  ld_parcel_id :: string
  ld_zoning_code :: "string option"
  ld_soil_type :: "string option"
  ld_cropland_class :: "string option"
  ld_has_water_access :: bool
  ld_has_road_access :: bool

record valuation =
  v_parcel_id :: string
  v_estimated_price :: real
  v_valuation_date :: int

record db =
  parcels :: "parcel list"
  land_data :: "land list"
  valuations :: "valuation list"

text \<open>
  The constraints of the migration that the queries rely on: \<^verbatim>\<open>parcels_pkey\<close> (primary
  key \<^verbatim>\<open>id\<close>) and the unique index \<^verbatim>\<open>land_data_parcel_id_key\<close>.
\<close>

definition wf_db :: "db \<Rightarrow> bool" where
  "wf_db d \<longleftrightarrow> distinct (map p_id (parcels d)) \<and> distinct (map ld_parcel_id (land_data d))"

text \<open>
  The PostGIS operations, which the model does not interpret: \<^verbatim>\<open>geometry &&
  ST_MakeEnvelope(a, b, c, d, 4326)\<close> on the four bound values,
  \<^verbatim>\<open>ST_AsGeoJSON(ST_SimplifyPreserveTopology(geometry, $1))\<close>, and \<^verbatim>\<open>ST_Distance\<close> and
  \<^verbatim>\<open>ST_DWithin\<close> on the bound values of the near-point query.
\<close>

record gis =
  envelope_overlaps :: "geom \<Rightarrow> sqlval list \<Rightarrow> bool"
  simplify_geojson :: "geom \<Rightarrow> sqlval \<Rightarrow> string"
  st_distance :: "geom \<Rightarrow> sqlval list \<Rightarrow> real"
  st_dwithin :: "geom \<Rightarrow> sqlval list \<Rightarrow> bool"

text \<open>
  \<^verbatim>\<open>LEFT JOIN LATERAL (SELECT estimated_price FROM valuations WHERE parcel_id = p.id
  ORDER BY valuation_date DESC LIMIT 1) v ON true\<close>
\<close>

definition latest :: "db \<Rightarrow> string \<Rightarrow> real option" where
  "latest d pid =
     (case sort_key (\<lambda>v. - v_valuation_date v)
             (filter (\<lambda>v. v_parcel_id v = pid) (valuations d)) of
        [] \<Rightarrow> None
      | v # vs \<Rightarrow> Some (v_estimated_price v))"

text \<open>\<^verbatim>\<open>LEFT JOIN land_data ld ON ld.parcel_id = p.id\<close>\<close>

definition leftJoinLand :: "db \<Rightarrow> string \<Rightarrow> land option list" where
  "leftJoinLand d pid =
     (case filter (\<lambda>l. ld_parcel_id l = pid) (land_data d) of
        [] \<Rightarrow> [None]
      | l # ls \<Rightarrow> map Some (l # ls))"

text \<open>A row of \<^verbatim>\<open>parcels p\<close> joined with \<^verbatim>\<open>ld\<close> and \<^verbatim>\<open>v\<close>.\<close>

record jrow =
  j_p :: parcel
  j_ld :: "land option"
  j_v :: "real option"

definition joined :: "db \<Rightarrow> jrow list" where
  "joined d =
     concat (map (\<lambda>p. map (\<lambda>l. \<lparr>j_p = p, j_ld = l, j_v = latest d (p_id p)\<rparr>)
                          (leftJoinLand d (p_id p)))
                 (parcels d))"

definition selectRow :: "jrow \<Rightarrow> row" where
  "selectRow j =
     \<lparr>r_id = p_id (j_p j),
      r_parcel_id = p_parcel_id (j_p j),
      r_address = p_address (j_p j),
      r_city = p_city (j_p j),
      r_area_sqft = p_area_sqft (j_p j),
      r_area_acres = p_area_acres (j_p j),
      r_centroid_lat = p_centroid_lat (j_p j),
      r_centroid_lng = p_centroid_lng (j_p j),
      r_estimated_price = j_v j,
      r_zoning_code = (case j_ld j of None \<Rightarrow> None | Some l \<Rightarrow> ld_zoning_code l)\<rparr>"

definition selectFeature :: "gis \<Rightarrow> sqlval \<Rightarrow> jrow \<Rightarrow> frow" where
  "selectFeature g tol j =
     \<lparr>f_id = p_id (j_p j),
      f_parcel_id = p_parcel_id (j_p j),
      f_geojson = (case p_geometry (j_p j) of None \<Rightarrow> None
                   | Some m \<Rightarrow> Some (simplify_geojson g m tol)),
      f_address = p_address (j_p j),
      f_city = p_city (j_p j),
      f_area_acres = p_area_acres (j_p j),
      f_estimated_price = j_v j,
      f_zoning_code = (case j_ld j of None \<Rightarrow> None | Some l \<Rightarrow> ld_zoning_code l),
      f_soil_type = (case j_ld j of None \<Rightarrow> None | Some l \<Rightarrow> ld_soil_type l)\<rparr>"

text \<open>
  A statement is accepted when the placeholders it mentions are exactly
  \<^verbatim>\<open>$1 .. $n\<close> for the \<open>n\<close> values of the call. \<open>bindArgs\<close> gives the values
  bound to the placeholders of one condition; the store evaluates it only for an accepted
  statement, where every index is in range.
\<close>

definition paramsOk :: "nat list \<Rightarrow> sqlval list \<Rightarrow> bool" where
  "paramsOk used ps \<longleftrightarrow> sort (remdups used) = [1..<Suc (length ps)]"

definition bindArgs :: "sqlval list \<Rightarrow> frag \<Rightarrow> sqlval list" where
  "bindArgs ps f = map (\<lambda>i. ps ! (i - 1)) (placeholders f)"

text \<open>
  The WHERE clause \<^verbatim>\<open>conditions.join(' AND ')\<close>: every condition holds. What one
  condition means on a joined row, given its bound values, is the parameter \<open>holds\<close>.
\<close>

definition whereHolds ::
  "(frag \<Rightarrow> sqlval list \<Rightarrow> jrow \<Rightarrow> bool) \<Rightarrow> frag list \<Rightarrow> sqlval list \<Rightarrow> jrow \<Rightarrow> bool" where
  "whereHolds holds conds ps j = list_all (\<lambda>f. holds f (bindArgs ps f) j) conds"

text \<open>The value of a \<^verbatim>\<open>LIMIT\<close> or \<^verbatim>\<open>OFFSET\<close> parameter: a natural number.\<close>

definition asCount :: "sqlval \<Rightarrow> nat option" where
  "asCount v =
     (case v of
        VNum x \<Rightarrow> if 0 \<le> x \<and> x = of_int \<lfloor>x\<rfloor> then Some (nat \<lfloor>x\<rfloor>) else None
      | _ \<Rightarrow> None)"

text \<open>\<^verbatim>\<open>ORDER BY v.estimated_price DESC NULLS LAST\<close>, as an ascending sort key.\<close>

definition priceKey :: "real option \<Rightarrow> nat \<times> real" where
  "priceKey v = (case v of Some x \<Rightarrow> (0, - x) | None \<Rightarrow> (1, 0))"

definition inEnvelope :: "gis \<Rightarrow> sqlval list \<Rightarrow> jrow \<Rightarrow> bool" where
  "inEnvelope g env j =
     (case p_geometry (j_p j) of None \<Rightarrow> False | Some m \<Rightarrow> envelope_overlaps g m env)"

definition pg_bbox :: "gis \<Rightarrow> db \<Rightarrow> sqlval list \<Rightarrow> error + row list" where
  "pg_bbox g d ps =
     (if length ps = 4
      then Inr (map selectRow (take 500 (filter (inEnvelope g ps) (joined d))))
      else Inl StoreError)"

definition pg_features :: "gis \<Rightarrow> db \<Rightarrow> sqlval list \<Rightarrow> error + frow list" where
  "pg_features g d ps =
     (if length ps = 5
      then Inr (map (selectFeature g (hd ps))
                 (take 500 (filter (inEnvelope g (tl ps)) (joined d))))
      else Inl StoreError)"

definition pg_count ::
  "(frag \<Rightarrow> sqlval list \<Rightarrow> jrow \<Rightarrow> bool) \<Rightarrow> db \<Rightarrow> frag list \<Rightarrow> sqlval list \<Rightarrow> error + nat" where
  "pg_count holds d conds ps =
     (if paramsOk (concat (map placeholders conds)) ps
      then Inr (length (remdups (map (\<lambda>j. p_id (j_p j))
                  (filter (whereHolds holds conds ps) (joined d)))))
      else Inl StoreError)"

definition pg_search ::
  "(frag \<Rightarrow> sqlval list \<Rightarrow> jrow \<Rightarrow> bool) \<Rightarrow> db \<Rightarrow> frag list \<Rightarrow> nat \<Rightarrow> nat \<Rightarrow> sqlval list \<Rightarrow>
     error + row list" where
  "pg_search holds d conds li oi ps =
     (if paramsOk (concat (map placeholders conds) @ [li, oi]) ps
      then (case asCount (ps ! (li - 1)) of None \<Rightarrow> Inl StoreError | Some l \<Rightarrow>
           (case asCount (ps ! (oi - 1)) of None \<Rightarrow> Inl StoreError | Some k \<Rightarrow>
              Inr (map selectRow
                    (take l (drop k
                      (sort_key (\<lambda>j. priceKey (j_v j))
                        (filter (whereHolds holds conds ps) (joined d))))))))
      else Inl StoreError)"

definition pg_near :: "gis \<Rightarrow> db \<Rightarrow> sqlval list \<Rightarrow> error + nrow list" where
  "pg_near g d ps =
     (if length ps = 4
      then (case asCount (ps ! 3) of None \<Rightarrow> Inl StoreError | Some l \<Rightarrow>
              Inr (take l (sort_key snd
                    (concat (map (\<lambda>j. case p_geometry (j_p j) of
                                         None \<Rightarrow> []
                                       | Some m \<Rightarrow> if st_dwithin g m ps
                                                   then [(selectRow j, st_distance g m ps)]
                                                   else [])
                                 (joined d))))))
      else Inl StoreError)"

text \<open>
  The statistics query joins only the lateral \<open>v\<close>: one row per parcel. The aggregates
  \<^verbatim>\<open>SUM\<close>, \<^verbatim>\<open>AVG\<close>, \<^verbatim>\<open>MIN\<close>, \<^verbatim>\<open>MAX\<close> skip NULL and are NULL over no value.
  \<open>pricedParcels\<close> are the prices that \<^verbatim>\<open>AVG(v.estimated_price)\<close> averages, one for each
  row with a valuation.
\<close>

definition pricedParcels :: "db \<Rightarrow> real list" where
  "pricedParcels d =
     concat (map (\<lambda>p. case latest d (p_id p) of None \<Rightarrow> [] | Some x \<Rightarrow> [x]) (parcels d))"

definition sqlSum :: "real list \<Rightarrow> real option" where
  "sqlSum xs = (if xs = [] then None else Some (sum_list xs))"

definition sqlAvg :: "real list \<Rightarrow> real option" where
  "sqlAvg xs = (if xs = [] then None else Some (sum_list xs / real (length xs)))"

definition sqlMin :: "real list \<Rightarrow> real option" where
  "sqlMin xs = (case xs of [] \<Rightarrow> None | x # ys \<Rightarrow> Some (fold min ys x))"

definition sqlMax :: "real list \<Rightarrow> real option" where
  "sqlMax xs = (case xs of [] \<Rightarrow> None | x # ys \<Rightarrow> Some (fold max ys x))"

definition pg_stats :: "db \<Rightarrow> stats_row" where
  "pg_stats d =
     \<lparr>total_parcels = length (remdups (map p_id (parcels d))),
      total_area_acres = sqlSum (map p_area_acres (parcels d)),
      avg_price = sqlAvg (pricedParcels d),
      min_price = sqlMin (pricedParcels d),
      max_price = sqlMax (pricedParcels d),
      avg_area_acres = sqlAvg (map p_area_acres (parcels d))\<rparr>"

text \<open>
  \<^verbatim>\<open>FROM parcels p JOIN land_data ld ON ld.parcel_id = p.id WHERE ld.zoning_code IS NOT
  NULL GROUP BY ld.zoning_code ORDER BY count DESC\<close>
\<close>

definition zoningCodesOf :: "db \<Rightarrow> string list" where
  "zoningCodesOf d =
     concat (map (\<lambda>p. concat (map (\<lambda>l. if ld_parcel_id l = p_id p
                                        then (case ld_zoning_code l of None \<Rightarrow> [] | Some z \<Rightarrow> [z])
                                        else [])
                                  (land_data d)))
                 (parcels d))"

definition pg_zoning :: "db \<Rightarrow> (string \<times> nat) list" where
  "pg_zoning d =
     sort_key (\<lambda>g. - int (snd g))
       (map (\<lambda>z. (z, count_list (zoningCodesOf d) z)) (remdups (zoningCodesOf d)))"

text \<open>The store over a database: each call is answered by the meaning of its SQL text.\<close>

definition pg_store :: "(frag \<Rightarrow> sqlval list \<Rightarrow> jrow \<Rightarrow> bool) \<Rightarrow> gis \<Rightarrow> db \<Rightarrow> store" where
  "pg_store holds g d =
     \<lparr>queryList = (\<lambda>c. case fst c of
                         BBoxListSQL \<Rightarrow> pg_bbox g d (snd c)
                       | SearchSQL conds li oi \<Rightarrow> pg_search holds d conds li oi (snd c)
                       | _ \<Rightarrow> Inl StoreError),
      queryFeatures = (\<lambda>c. case fst c of
                             GeoJSONSQL \<Rightarrow> pg_features g d (snd c)
                           | _ \<Rightarrow> Inl StoreError),
      queryNear = (\<lambda>c. case fst c of NearSQL \<Rightarrow> pg_near g d (snd c) | _ \<Rightarrow> Inl StoreError),
      queryCount = (\<lambda>c. case fst c of
                          CountSQL conds \<Rightarrow> pg_count holds d conds (snd c)
                        | _ \<Rightarrow> Inl StoreError),
      queryStats = (\<lambda>c. case fst c of StatsSQL \<Rightarrow> Inr (pg_stats d) | _ \<Rightarrow> Inl StoreError),
      queryZoning = (\<lambda>c. case fst c of ZoningSQL \<Rightarrow> Inr (pg_zoning d) | _ \<Rightarrow> Inl StoreError)\<rparr>"

section \<open>Notions used in the statements\<close>

text \<open>
  The invariant of the builder: the first condition is the constant \<^verbatim>\<open>1=1\<close>, every
  later condition holds exactly the placeholder of its position, and \<open>paramIndex\<close> is
  one more than the number of bound values.
\<close>

definition indexed :: "builder \<Rightarrow> bool" where
  "indexed b \<longleftrightarrow>
     conditions b \<noteq> [] \<and> hd (conditions b) = [Txt ''1=1''] \<and>
     map placeholders (tl (conditions b)) = map (\<lambda>i. [i]) [1..<Suc (length (vals b))] \<and>
     paramIndex b = Suc (length (vals b))"

text \<open>The joined rows that satisfy the WHERE clause compiled from a filter.\<close>

definition matching ::
  "(frag \<Rightarrow> sqlval list \<Rightarrow> jrow \<Rightarrow> bool) \<Rightarrow> db \<Rightarrow> ParcelSearchParams \<Rightarrow> jrow list" where
  "matching holds d params =
     filter (whereHolds holds (conditions (buildWhere params)) (vals (buildWhere params)))
       (joined d)"

text \<open>
  "By latest estimated price descending, with missing-price rows sorted last": \<open>a\<close> may
  stand before \<open>b\<close>.
\<close>

definition descNullsLast :: "real option \<Rightarrow> real option \<Rightarrow> bool" where
  "descNullsLast a b =
     (case b of None \<Rightarrow> True | Some y \<Rightarrow> (case a of None \<Rightarrow> False | Some x \<Rightarrow> y \<le> x))"

section \<open>Example data\<close>

text \<open>
  A condition evaluator that interprets the minimum-area condition and takes every other
  condition as true, PostGIS operations under which every geometry matches, and two
  databases with the same content whose parcels table is scanned in different orders.
  Parcels \<open>a\<close> and \<open>b\<close> have the same latest price, parcel \<open>c\<close> has no valuation.
\<close>

definition exampleHolds :: "frag \<Rightarrow> sqlval list \<Rightarrow> jrow \<Rightarrow> bool" where
  "exampleHolds f args j =
     (if hd f = Txt ''p.area_acres >= ''
      then (case args of [VNum x] \<Rightarrow> x \<le> p_area_acres (j_p j) | _ \<Rightarrow> False)
      else True)"

definition exampleGis :: gis where
  "exampleGis =
     \<lparr>envelope_overlaps = (\<lambda>m env. True), simplify_geojson = (\<lambda>m tol. ''{}''),
      st_distance = (\<lambda>m ps. 0), st_dwithin = (\<lambda>m ps. True)\<rparr>"

definition exampleParcel :: "string \<Rightarrow> real \<Rightarrow> parcel" where
  "exampleParcel pid acres =
     \<lparr>p_id = pid, p_parcel_id = pid, p_address = None, p_city = None,
      p_area_sqft = acres * 43560, p_area_acres = acres,
      p_centroid_lat = None, p_centroid_lng = None, p_geometry = Some []\<rparr>"

definition exampleValuations :: "valuation list" where
  "exampleValuations =
     [\<lparr>v_parcel_id = ''a'', v_estimated_price = 100, v_valuation_date = 1\<rparr>,
      \<lparr>v_parcel_id = ''b'', v_estimated_price = 100, v_valuation_date = 1\<rparr>]"

definition dbAB :: db where
  "dbAB =
     \<lparr>parcels = [exampleParcel ''a'' 12, exampleParcel ''b'' 15, exampleParcel ''c'' 5],
      land_data = [], valuations = exampleValuations\<rparr>"

definition dbBA :: db where
  "dbBA =
     \<lparr>parcels = [exampleParcel ''b'' 15, exampleParcel ''a'' 12, exampleParcel ''c'' 5],
      land_data = [], valuations = exampleValuations\<rparr>"

definition emptyDb :: db where
  "emptyDb = \<lparr>parcels = [], land_data = [], valuations = []\<rparr>"

definition noFilter :: ParcelSearchParams where
  "noFilter =
     \<lparr>minAreaAcres = None, maxAreaAcres = None, minPrice = None, maxPrice = None,
      zoningCodes = None, soilTypes = None, croplandClasses = None,
      hasWaterAccess = None, hasRoadAccess = None, city = None, limit = None, offset = None\<rparr>"

definition largeParcelsPage :: ParcelSearchParams where
  "largeParcelsPage = noFilter\<lparr>minAreaAcres := Some 10, limit := Some 1\<rparr>"

text \<open>A box with north below south and east below west, and a box with north above 90.\<close>

definition invertedBox :: BBoxRaw where
  "invertedBox =
     \<lparr>q_north = Some (Number 10), q_south = Some (Number 20),
      q_east = Some (Number 5), q_west = Some (Number 6), q_zoom = None\<rparr>"

definition polarBox :: BBoxRaw where
  "polarBox =
     \<lparr>q_north = Some (Number 95), q_south = Some (Number 20),
      q_east = Some (Number 5), q_west = Some (Number 6), q_zoom = None\<rparr>"

text \<open>
  The request \<^verbatim>\<open>/nearby?lat=0&lng=0&radius=-5\<close>, and a parse function that agrees with
  \<^verbatim>\<open>parseFloat\<close> on the two strings of that request.
\<close>

definition nearbyMinusFive :: NearbyQuery where
  "nearbyMinusFive =
     \<lparr>nq_lat = Some ''0'', nq_lng = Some ''0'', nq_radius = Some ''-5'', nq_limit = None\<rparr>"

definition exampleParse :: "string \<Rightarrow> real" where
  "exampleParse s = (if s = ''-5'' then - 5 else 0)"

lemmas example_defs = exampleHolds_def exampleGis_def exampleParcel_def exampleValuations_def
  dbAB_def dbBA_def emptyDb_def noFilter_def largeParcelsPage_def

lemmas store_defs = pg_store_def pg_search_def pg_count_def pg_bbox_def pg_features_def
  pg_near_def pg_stats_def pg_zoning_def joined_def leftJoinLand_def latest_def selectRow_def
  whereHolds_def bindArgs_def paramsOk_def asCount_def priceKey_def zoningCodesOf_def
  pricedParcels_def sqlSum_def sqlAvg_def sqlMin_def sqlMax_def inEnvelope_def
  selectFeature_def matching_def

lemmas service_defs = searchParcels_def countCall_def rowsCall_def buildWhere_def pushWhen_def
  push_def ifDefined_def ifNonEmpty_def ifTruthy_def effLimit_def effOffset_def listItem_def
  numOrUndefined_def numOrZero_def strOrUndefined_def

section \<open>Placeholder bookkeeping\<close>

lemma indexed_push: "indexed b \<Longrightarrow> indexed (push pre post v b)"
  by (auto simp: indexed_def push_def)

lemma indexed_pushWhen: "indexed b \<Longrightarrow> indexed (pushWhen g pre post b)"
  by (cases g) (simp_all add: pushWhen_def indexed_push)

lemma indexed_init: "indexed \<lparr>conditions = [[Txt ''1=1'']], vals = [], paramIndex = 1\<rparr>"
  by (simp add: indexed_def)

lemma indexed_buildWhere: "indexed (buildWhere params)"
  unfolding buildWhere_def Let_def
  by (intro indexed_pushWhen indexed_init)

lemma conditions_seed: "indexed b \<Longrightarrow> conditions b = [Txt ''1=1''] # tl (conditions b)"
  by (cases "conditions b") (auto simp: indexed_def)

lemma placeholders_of_indexed:
  assumes "indexed b"
  shows "concat (map placeholders (conditions b)) = [1..<Suc (length (vals b))]"
proof -
  have "concat (map placeholders (conditions b)) =
        concat (map placeholders ([Txt ''1=1''] # tl (conditions b)))"
    using conditions_seed[OF assms] by simp
  also have "\<dots> = concat (map (\<lambda>i. [i]) [1..<Suc (length (vals b))])"
    using assms by (simp add: indexed_def del: upt_Suc)
  also have "\<dots> = [1..<Suc (length (vals b))]"
    by (simp only: concat_map_singleton map_ident)
  finally show ?thesis .
qed

lemma length_conditions_indexed:
  assumes "indexed b"
  shows "length (tl (conditions b)) = length (vals b)"
proof -
  have "map placeholders (tl (conditions b)) = map (\<lambda>i. [i]) [1..<Suc (length (vals b))]"
    using assms unfolding indexed_def by blast
  then have "length (tl (conditions b)) = length [1..<Suc (length (vals b))]"
    by (rule map_eq_imp_length_eq)
  then show ?thesis
    by (simp del: upt_Suc)
qed

text \<open>
  Claim C1. For every filter object, the WHERE builder of \<open>searchParcels\<close> appends a
  condition and its bound value as a pair: after the constant first condition \<^verbatim>\<open>1=1\<close>
  (which binds nothing) there are as many conditions as bound values, the condition at
  position \<open>i\<close> holds exactly the placeholder \<open>$i\<close>, so the placeholders of the WHERE
  clause are exactly \<open>1..N\<close>, in order, for \<open>N\<close> bound values, and \<open>paramIndex\<close> ends at
  \<open>N + 1\<close>. The row query continues from it: \<^verbatim>\<open>LIMIT\<close> gets \<open>$(N+1)\<close> and \<^verbatim>\<open>OFFSET\<close>
  gets \<open>$(N+2)\<close>, neither of which is a placeholder of the filter, and the limit and the
  offset are bound at these two positions, after the filter's values.
\<close>

theorem filter_placeholders_sequential:
  "let b = buildWhere params; n = length (vals b)
   in conditions b = [Txt ''1=1''] # tl (conditions b) \<and>
      length (tl (conditions b)) = n \<and>
      map placeholders (tl (conditions b)) = map (\<lambda>i. [i]) [1..<Suc n] \<and>
      concat (map placeholders (conditions b)) = [1..<Suc n] \<and>
      paramIndex b = n + 1 \<and>
      countCall params = (CountSQL (conditions b), vals b) \<and>
      rowsCall params =
        (SearchSQL (conditions b) (n + 1) (n + 2),
         vals b @ [VNum (real (effLimit params)), VNum (real (effOffset params))]) \<and>
      n + 1 \<notin> set (concat (map placeholders (conditions b))) \<and>
      n + 2 \<notin> set (concat (map placeholders (conditions b)))"
proof -
  have i: "indexed (buildWhere params)"
    by (rule indexed_buildWhere)
  show ?thesis
    using i conditions_seed[OF i] placeholders_of_indexed[OF i] length_conditions_indexed[OF i]
    unfolding Let_def indexed_def rowsCall_def countCall_def
    by (simp del: upt_Suc)
qed

section \<open>Spatial queries: validation and the result cap\<close>

lemma zNumber_Some:
  "zNumber lo hi x = Some v \<longleftrightarrow> x = Some (Number v) \<and> lo \<le> v \<and> v \<le> hi"
  by (auto simp: zNumber_def split: option.splits coerced.splits)

lemma zOptional_Some:
  "zOptional (zNumber lo hi) x = Some z \<longleftrightarrow>
     (x = None \<and> z = None) \<or> (\<exists>v. x = Some (Number v) \<and> lo \<le> v \<and> v \<le> hi \<and> z = Some v)"
  by (cases x) (auto simp: zOptional_def zNumber_def split: option.splits coerced.splits)

lemma bboxQuerySchema_Some:
  "bboxQuerySchema raw = Some bbox \<longleftrightarrow>
     q_north raw = Some (Number (north bbox)) \<and> - 90 \<le> north bbox \<and> north bbox \<le> 90 \<and>
     q_south raw = Some (Number (south bbox)) \<and> - 90 \<le> south bbox \<and> south bbox \<le> 90 \<and>
     q_east raw = Some (Number (east bbox)) \<and> - 180 \<le> east bbox \<and> east bbox \<le> 180 \<and>
     q_west raw = Some (Number (west bbox)) \<and> - 180 \<le> west bbox \<and> west bbox \<le> 180 \<and>
     (q_zoom raw = None \<and> zoom bbox = None \<or>
      (\<exists>z. q_zoom raw = Some (Number z) \<and> 0 \<le> z \<and> z \<le> 22 \<and> zoom bbox = Some z))"
proof -
  have "bboxQuerySchema raw = Some bbox \<longleftrightarrow>
        zNumber (- 90) 90 (q_north raw) = Some (north bbox) \<and>
        zNumber (- 90) 90 (q_south raw) = Some (south bbox) \<and>
        zNumber (- 180) 180 (q_east raw) = Some (east bbox) \<and>
        zNumber (- 180) 180 (q_west raw) = Some (west bbox) \<and>
        zOptional (zNumber 0 22) (q_zoom raw) = Some (zoom bbox)"
    by (cases bbox) (auto simp: bboxQuerySchema_def split: option.splits)
  then show ?thesis
    by (simp only: zNumber_Some zOptional_Some) blast
qed

lemma joined_dbAB:
  "joined dbAB =
     [\<lparr>j_p = exampleParcel ''a'' 12, j_ld = None, j_v = Some 100\<rparr>,
      \<lparr>j_p = exampleParcel ''b'' 15, j_ld = None, j_v = Some 100\<rparr>,
      \<lparr>j_p = exampleParcel ''c'' 5, j_ld = None, j_v = None\<rparr>]"
  by (simp add: joined_def leftJoinLand_def latest_def dbAB_def exampleValuations_def
        exampleParcel_def)

text \<open>
  Claim C2, as amended. A bounding-box request is rejected with a validation error, with
  no store call issued, exactly when the schema rejects it; the schema accepts a request
  exactly when north and south are numbers in [-90, 90], east and west are numbers in
  [-180, 180], and zoom is absent or a number in [0, 22]. Every accepted request reaches
  the store with one call binding the tolerance, west, south, east and north, whatever
  the order of north and south or of east and west: neither the schema nor the service
  compares them.
\<close>

theorem bbox_route_checks_ranges_only:
  "(bboxQuerySchema raw = Some bbox \<longleftrightarrow>
     q_north raw = Some (Number (north bbox)) \<and> - 90 \<le> north bbox \<and> north bbox \<le> 90 \<and>
     q_south raw = Some (Number (south bbox)) \<and> - 90 \<le> south bbox \<and> south bbox \<le> 90 \<and>
     q_east raw = Some (Number (east bbox)) \<and> - 180 \<le> east bbox \<and> east bbox \<le> 180 \<and>
     q_west raw = Some (Number (west bbox)) \<and> - 180 \<le> west bbox \<and> west bbox \<le> 180 \<and>
     (q_zoom raw = None \<and> zoom bbox = None \<or>
      (\<exists>z. q_zoom raw = Some (Number z) \<and> 0 \<le> z \<and> z \<le> 22 \<and> zoom bbox = Some z))) \<and>
   (bboxQuerySchema raw = None \<longrightarrow> bboxRoute st raw = ([], Inl ValidationError)) \<and>
   (bboxQuerySchema raw = Some bbox \<longrightarrow>
      fst (bboxRoute st raw) =
        [(GeoJSONSQL, [VNum (tolerance (zoom bbox)), VNum (west bbox), VNum (south bbox),
                       VNum (east bbox), VNum (north bbox)])] \<and>
      snd (bboxRoute st raw) =
        map_sum id (\<lambda>fs. (map feature fs, length fs))
          (queryFeatures st
            (GeoJSONSQL, [VNum (tolerance (zoom bbox)), VNum (west bbox), VNum (south bbox),
                          VNum (east bbox), VNum (north bbox)])))"
proof (intro conjI impI)
  show "bboxQuerySchema raw = Some bbox \<longleftrightarrow>
     q_north raw = Some (Number (north bbox)) \<and> - 90 \<le> north bbox \<and> north bbox \<le> 90 \<and>
     q_south raw = Some (Number (south bbox)) \<and> - 90 \<le> south bbox \<and> south bbox \<le> 90 \<and>
     q_east raw = Some (Number (east bbox)) \<and> - 180 \<le> east bbox \<and> east bbox \<le> 180 \<and>
     q_west raw = Some (Number (west bbox)) \<and> - 180 \<le> west bbox \<and> west bbox \<le> 180 \<and>
     (q_zoom raw = None \<and> zoom bbox = None \<or>
      (\<exists>z. q_zoom raw = Some (Number z) \<and> 0 \<le> z \<and> z \<le> 22 \<and> zoom bbox = Some z))"
    by (rule bboxQuerySchema_Some)
next
  assume "bboxQuerySchema raw = None"
  then show "bboxRoute st raw = ([], Inl ValidationError)"
    by (simp add: bboxRoute_def validate_def)
next
  assume a: "bboxQuerySchema raw = Some bbox"
  then show "fst (bboxRoute st raw) =
        [(GeoJSONSQL, [VNum (tolerance (zoom bbox)), VNum (west bbox), VNum (south bbox),
                       VNum (east bbox), VNum (north bbox)])]"
    by (simp add: bboxRoute_def validate_def getParcelGeoJSON_def Let_def split: sum.splits)
  from a show "snd (bboxRoute st raw) =
        map_sum id (\<lambda>fs. (map feature fs, length fs))
          (queryFeatures st
            (GeoJSONSQL, [VNum (tolerance (zoom bbox)), VNum (west bbox), VNum (south bbox),
                          VNum (east bbox), VNum (north bbox)]))"
    by (simp add: bboxRoute_def validate_def getParcelGeoJSON_def Let_def split: sum.splits)
qed

text \<open>
  The amended claim at two requests: north = 95 is rejected before any call; north = 10,
  south = 20, east = 5, west = 6 is accepted and reaches the store.
\<close>

theorem bbox_route_checks_ranges_only_witness:
  "bboxQuerySchema polarBox = None \<and>
   bboxRoute (pg_store exampleHolds exampleGis dbAB) polarBox = ([], Inl ValidationError) \<and>
   bboxQuerySchema invertedBox =
     Some \<lparr>north = 10, south = 20, east = 5, west = 6, zoom = None\<rparr> \<and>
   fst (bboxRoute (pg_store exampleHolds exampleGis dbAB) invertedBox) =
     [(GeoJSONSQL, [VNum 0.0001, VNum 6, VNum 20, VNum 5, VNum 10])]"
  using bbox_route_checks_ranges_only [of polarBox _ "pg_store exampleHolds exampleGis dbAB"]
        bbox_route_checks_ranges_only [of invertedBox
          "\<lparr>north = 10, south = 20, east = 5, west = 6, zoom = None\<rparr>"
          "pg_store exampleHolds exampleGis dbAB"]
  by (simp add: bboxQuerySchema_def zNumber_def zOptional_def invertedBox_def polarBox_def
        tolerance_def)

text \<open>
  Claim C2 as stated fails: the request with north = 10 below south = 20 (and east = 5
  below west = 6) is not rejected. The route issues the GeoJSON query with these bounds and
  answers with the three features the store returns.
\<close>

theorem bbox_inverted_reaches_store_counterexample:
  "fst (bboxRoute (pg_store exampleHolds exampleGis dbAB) invertedBox) =
     [(GeoJSONSQL, [VNum 0.0001, VNum 6, VNum 20, VNum 5, VNum 10])] \<and>
   map_sum id snd (snd (bboxRoute (pg_store exampleHolds exampleGis dbAB) invertedBox)) = Inr 3"
  by (simp add: bboxRoute_def validate_def bboxQuerySchema_def zNumber_def zOptional_def
        invertedBox_def getParcelGeoJSON_def tolerance_def pg_store_def pg_features_def
        inEnvelope_def joined_dbAB exampleGis_def exampleParcel_def Let_def)

text \<open>
  Claim C3, as amended. \<open>getParcelsNearPoint\<close> issues its store call for every radius,
  positive or not, binding the radius as \<open>$3\<close>, and returns what the store returns; it
  has no failure of its own. The \<^verbatim>\<open>/nearby\<close> route fails before any store call only when
  \<open>lat\<close> or \<open>lng\<close> is absent or empty (a bad-request error); otherwise it passes the
  parsed radius, or 1000 when none is given, to the service.
\<close>

theorem near_point_passes_any_radius:
  "fst (getParcelsNearPoint st lng lat radiusMeters lmt) =
     [(NearSQL, [VNum lng, VNum lat, VNum radiusMeters,
                 VNum (case lmt of None \<Rightarrow> 20 | Some l \<Rightarrow> l)])] \<and>
   snd (getParcelsNearPoint st lng lat radiusMeters lmt) =
     map_sum id (map nearItem)
       (queryNear st (NearSQL, [VNum lng, VNum lat, VNum radiusMeters,
                                VNum (case lmt of None \<Rightarrow> 20 | Some l \<Rightarrow> l)])) \<and>
   (falsy (nq_lat q) \<or> falsy (nq_lng q) \<longrightarrow>
      nearbyRoute parseFloat parseInt st q =
        ([], Inl (BadRequest ''lat and lng are required''))) \<and>
   (nq_lat q = Some la \<and> la \<noteq> [] \<and> nq_lng q = Some lo \<and> lo \<noteq> [] \<longrightarrow>
      fst (nearbyRoute parseFloat parseInt st q) =
        [(NearSQL, [VNum (parseFloat lo), VNum (parseFloat la),
                    VNum (case nq_radius q of None \<Rightarrow> 1000 | Some s \<Rightarrow> parseFloat s),
                    VNum (case nq_limit q of None \<Rightarrow> 20 | Some s \<Rightarrow> parseInt s)])])"
  by (auto simp: getParcelsNearPoint_def nearbyRoute_def falsy_def Let_def split: sum.splits)

text \<open>
  The amended claim at two requests: without \<open>lat\<close> the route fails before any call; with
  \<^verbatim>\<open>lat=0&lng=0&radius=-5\<close> it calls the store with radius -5.
\<close>

theorem near_point_passes_any_radius_witness:
  "falsy (nq_lat (nearbyMinusFive\<lparr>nq_lat := None\<rparr>)) \<and>
   nearbyRoute exampleParse exampleParse (pg_store exampleHolds exampleGis emptyDb)
       (nearbyMinusFive\<lparr>nq_lat := None\<rparr>) =
     ([], Inl (BadRequest ''lat and lng are required'')) \<and>
   nq_lat nearbyMinusFive = Some ''0'' \<and> nq_lng nearbyMinusFive = Some ''0'' \<and>
   fst (nearbyRoute exampleParse exampleParse (pg_store exampleHolds exampleGis emptyDb)
         nearbyMinusFive) =
     [(NearSQL, [VNum 0, VNum 0, VNum (- 5), VNum 20])]"
  using near_point_passes_any_radius
          [where q = "nearbyMinusFive\<lparr>nq_lat := None\<rparr>" and parseFloat = exampleParse
             and parseInt = exampleParse and st = "pg_store exampleHolds exampleGis emptyDb"]
        near_point_passes_any_radius
          [where q = nearbyMinusFive and la = "''0''" and lo = "''0''"
             and parseFloat = exampleParse and parseInt = exampleParse
             and st = "pg_store exampleHolds exampleGis emptyDb"]
  by (simp add: falsy_def nearbyMinusFive_def exampleParse_def)

text \<open>
  Claim C3 as stated fails: with \<open>radiusMeters = -5\<close> neither the service nor the route
  fails with a validation error. Both issue the near-point query with \<open>$3 = -5\<close> and
  return the (here empty) answer of the store.
\<close>

theorem near_negative_radius_counterexample:
  "getParcelsNearPoint (pg_store exampleHolds exampleGis emptyDb) 0 0 (- 5) None =
     ([(NearSQL, [VNum 0, VNum 0, VNum (- 5), VNum 20])], Inr []) \<and>
   nearbyRoute exampleParse exampleParse (pg_store exampleHolds exampleGis emptyDb)
       nearbyMinusFive =
     ([(NearSQL, [VNum 0, VNum 0, VNum (- 5), VNum 20])], Inr ([], 0))"
  by (simp add: getParcelsNearPoint_def nearbyRoute_def falsy_def nearbyMinusFive_def
        exampleParse_def pg_store_def pg_near_def asCount_def joined_def emptyDb_def Let_def)

section \<open>Filtered search against the store\<close>

lemma bindArgs_append:
  assumes "\<forall>i\<in>set (placeholders f). 1 \<le> i \<and> i \<le> length ps"
  shows "bindArgs (ps @ extra) f = bindArgs ps f"
  using assms by (auto simp: bindArgs_def nth_append)

lemma whereHolds_append:
  assumes "\<forall>i\<in>set (concat (map placeholders conds)). 1 \<le> i \<and> i \<le> length ps"
  shows "whereHolds holds conds (ps @ extra) = whereHolds holds conds ps"
proof
  fix j
  have "\<And>f. f \<in> set conds \<Longrightarrow> bindArgs (ps @ extra) f = bindArgs ps f"
    using assms by (intro bindArgs_append) auto
  then show "whereHolds holds conds (ps @ extra) j = whereHolds holds conds ps j"
    by (simp add: whereHolds_def list_all_iff)
qed

lemma placeholders_in_range:
  assumes "indexed b"
  shows "\<forall>i\<in>set (concat (map placeholders (conditions b))). 1 \<le> i \<and> i \<le> length (vals b)"
  unfolding placeholders_of_indexed[OF assms] by auto

lemma paramsOk_upt: "paramsOk [Suc 0..<Suc n] ps \<longleftrightarrow> length ps = n"
proof -
  have "sort (remdups [Suc 0..<Suc n]) = [Suc 0..<Suc n]"
    by (simp add: distinct_remdups_id sort_key_id_if_sorted del: upt_Suc)
  moreover have "[Suc 0..<Suc n] = [Suc 0..<Suc (length ps)] \<longleftrightarrow> length ps = n"
  proof
    assume "[Suc 0..<Suc n] = [Suc 0..<Suc (length ps)]"
    then have "length [Suc 0..<Suc n] = length [Suc 0..<Suc (length ps)]"
      by (rule arg_cong)
    then show "length ps = n"
      by (simp del: upt_Suc)
  next
    assume "length ps = n"
    then show "[Suc 0..<Suc n] = [Suc 0..<Suc (length ps)]"
      by simp
  qed
  ultimately show ?thesis
    unfolding paramsOk_def by (simp del: upt_Suc)
qed

lemma paramsOk_count:
  assumes "indexed b"
  shows "paramsOk (concat (map placeholders (conditions b))) (vals b)"
  unfolding placeholders_of_indexed[OF assms] by (simp add: paramsOk_upt del: upt_Suc)

lemma paramsOk_rows:
  assumes "indexed b"
  shows "paramsOk (concat (map placeholders (conditions b)) @ [paramIndex b, paramIndex b + 1])
           (vals b @ [x, y])"
proof -
  have p: "paramIndex b = Suc (length (vals b))"
    using assms by (simp add: indexed_def)
  have "[1..<Suc (length (vals b))] @ [Suc (length (vals b)), Suc (Suc (length (vals b)))] =
        [1..<Suc (Suc (Suc (length (vals b))))]"
    by simp
  then show ?thesis
    unfolding placeholders_of_indexed[OF assms] p
    by (simp add: paramsOk_upt del: upt_Suc)
qed

lemma asCount_nat: "asCount (VNum (real n)) = Some n"
  by (simp add: asCount_def)

lemma filter_land_le1:
  assumes "distinct (map ld_parcel_id ls)"
  shows "length (filter (\<lambda>l. ld_parcel_id l = pid) ls) \<le> 1"
  using assms
proof (induction ls)
  case Nil
  then show ?case by simp
next
  case (Cons l ls)
  show ?case
  proof (cases "ld_parcel_id l = pid")
    case True
    then have "pid \<notin> ld_parcel_id ` set ls"
      using Cons.prems by auto
    then have "filter (\<lambda>l. ld_parcel_id l = pid) ls = []"
      by (auto simp: filter_empty_conv)
    with True show ?thesis by simp
  next
    case False
    with Cons show ?thesis by simp
  qed
qed

lemma leftJoinLand_single:
  assumes "distinct (map ld_parcel_id (land_data d))"
  shows "\<exists>l. leftJoinLand d pid = [l]"
proof -
  have "length (filter (\<lambda>l. ld_parcel_id l = pid) (land_data d)) \<le> 1"
    by (rule filter_land_le1[OF assms])
  then show ?thesis
    by (cases "filter (\<lambda>l. ld_parcel_id l = pid) (land_data d)")
       (auto simp: leftJoinLand_def)
qed

lemma joined_ids:
  assumes "distinct (map ld_parcel_id (land_data d))"
  shows "map (\<lambda>j. p_id (j_p j)) (joined d) = map p_id (parcels d)"
proof -
  have "map (\<lambda>j. p_id (j_p j))
          (concat (map (\<lambda>p. map (\<lambda>l. \<lparr>j_p = p, j_ld = l, j_v = latest d (p_id p)\<rparr>)
                               (leftJoinLand d (p_id p))) ps)) = map p_id ps" for ps
  proof (induction ps)
    case Nil
    then show ?case by simp
  next
    case (Cons p ps)
    obtain l where "leftJoinLand d (p_id p) = [l]"
      using leftJoinLand_single[OF assms] by blast
    with Cons show ?case by simp
  qed
  then show ?thesis
    by (simp add: joined_def)
qed

lemma count_distinct_rows:
  assumes "wf_db d"
  shows "length (remdups (map (\<lambda>j. p_id (j_p j)) (filter P (joined d)))) =
         length (filter P (joined d))"
proof -
  have "distinct (map (\<lambda>j. p_id (j_p j)) (joined d))"
    using assms joined_ids[of d] by (simp add: wf_db_def)
  then have "distinct (map (\<lambda>j. p_id (j_p j)) (filter P (joined d)))"
    by (rule distinct_map_filter)
  then show ?thesis
    by (simp add: distinct_remdups_id)
qed

lemma pg_count_countCall:
  "queryCount (pg_store holds g d) (countCall params) =
     Inr (length (remdups (map (\<lambda>j. p_id (j_p j)) (matching holds d params))))"
  using paramsOk_count[OF indexed_buildWhere, of params]
  by (simp add: pg_store_def countCall_def pg_count_def matching_def Let_def)

lemma pg_search_rowsCall:
  "queryList (pg_store holds g d) (rowsCall params) =
     Inr (map selectRow (take (effLimit params) (drop (effOffset params)
            (sort_key (\<lambda>j. priceKey (j_v j)) (matching holds d params)))))"
proof -
  let ?b = "buildWhere params"
  have i: "indexed ?b"
    by (rule indexed_buildWhere)
  have p: "paramIndex ?b = Suc (length (vals ?b))"
    using i by (simp add: indexed_def)
  have w: "whereHolds holds (conditions ?b)
             (vals ?b @ [VNum (real (effLimit params)), VNum (real (effOffset params))])
           = whereHolds holds (conditions ?b) (vals ?b)"
    by (rule whereHolds_append[OF placeholders_in_range[OF i]])
  show ?thesis
    using paramsOk_rows[OF i, of "VNum (real (effLimit params))" "VNum (real (effOffset params))"]
    by (simp add: pg_store_def rowsCall_def pg_search_def matching_def Let_def w p asCount_nat
          nth_append)
qed

lemma searchParcels_pg:
  "searchParcels (pg_store holds g d) params =
     ([countCall params, rowsCall params],
      Inr (map listItem (map selectRow (take (effLimit params) (drop (effOffset params)
             (sort_key (\<lambda>j. priceKey (j_v j)) (matching holds d params))))),
           length (remdups (map (\<lambda>j. p_id (j_p j)) (matching holds d params)))))"
  by (simp add: searchParcels_def pg_count_countCall pg_search_rowsCall Let_def)

lemma natOr_offset: "natOr 0 (offset params) = effOffset params"
  by (simp add: natOr_def effOffset_def split: option.splits)

lemma priceKey_le: "priceKey a \<le> priceKey b \<longleftrightarrow> descNullsLast a b"
  by (cases a; cases b) (simp_all add: priceKey_def descNullsLast_def)

lemma search_ids_dbAB:
  "map_sum id (map i_id \<circ> fst)
     (snd (searchParcels (pg_store exampleHolds exampleGis dbAB) noFilter)) =
   Inr [''a'', ''b'', ''c'']"
  by (simp add: service_defs store_defs example_defs Let_def)

lemma search_ids_dbBA:
  "map_sum id (map i_id \<circ> fst)
     (snd (searchParcels (pg_store exampleHolds exampleGis dbBA) noFilter)) =
   Inr [''b'', ''a'', ''c'']"
  by (simp add: service_defs store_defs example_defs Let_def)

text \<open>
  Claim C4, as amended. For every filter and pagination, Search returns the items of the
  rows at positions offset .. offset + limit of an arrangement of the matching rows that
  is ordered by latest estimated price descending with missing-price rows last. The query
  has no secondary sort key: the order of rows with equal (or missing) price is left to
  the store.
\<close>

theorem search_page_price_descending:
  "\<exists>ordered n.
     snd (searchParcels (pg_store holds g d) params) =
       Inr (map listItem (take (effLimit params) (drop (effOffset params) ordered)), n) \<and>
     mset ordered = mset (map selectRow (matching holds d params)) \<and>
     sorted_wrt (\<lambda>a b. descNullsLast (r_estimated_price a) (r_estimated_price b)) ordered \<and>
     sorted_wrt (\<lambda>a b. descNullsLast (r_estimated_price a) (r_estimated_price b))
       (take (effLimit params) (drop (effOffset params) ordered))"
proof -
  let ?S = "sort_key (\<lambda>j. priceKey (j_v j)) (matching holds d params)"
  let ?R = "\<lambda>a b. descNullsLast (r_estimated_price a) (r_estimated_price b)"
  have "sorted (map (\<lambda>j. priceKey (j_v j)) ?S)"
    by (rule sorted_sort_key)
  then have "sorted_wrt (\<lambda>x y. priceKey (j_v x) \<le> priceKey (j_v y)) ?S"
    by (simp add: sorted_map)
  then have s: "sorted_wrt ?R (map selectRow ?S)"
    by (simp add: sorted_wrt_map priceKey_le selectRow_def)
  have m: "mset (map selectRow ?S) = mset (map selectRow (matching holds d params))"
    by simp
  have t: "sorted_wrt ?R (take (effLimit params) (drop (effOffset params) (map selectRow ?S)))"
    by (intro sorted_wrt_take sorted_wrt_drop s)
  show ?thesis
    using s m t
    by (intro exI[of _ "map selectRow ?S"] exI) (simp add: searchParcels_pg take_map drop_map)
qed

text \<open>
  Claim C4 as stated fails: ties are not broken by a secondary key such as the id. Two
  stores hold the same parcels, land data and valuations and differ only in the order in
  which the parcels table is scanned; parcels \<open>a\<close> and \<open>b\<close> have the same price. The same
  Search (no filter, default pagination) returns \<open>a, b, c\<close> over one and \<open>b, a, c\<close> over
  the other.
\<close>

theorem search_tie_order_counterexample:
  "mset (parcels dbAB) = mset (parcels dbBA) \<and>
   land_data dbAB = land_data dbBA \<and> valuations dbAB = valuations dbBA \<and>
   map_sum id (map i_id \<circ> fst)
     (snd (searchParcels (pg_store exampleHolds exampleGis dbAB) noFilter)) =
     Inr [''a'', ''b'', ''c''] \<and>
   map_sum id (map i_id \<circ> fst)
     (snd (searchParcels (pg_store exampleHolds exampleGis dbBA) noFilter)) =
     Inr [''b'', ''a'', ''c'']"
  by (simp add: search_ids_dbAB search_ids_dbBA) (simp add: dbAB_def dbBA_def)

text \<open>
  Claim C6. Over a database that satisfies the schema's key constraints, Search issues the
  count query and the row query with the same list of conditions, and the values of the
  row query are the values of the count query followed by the limit and the offset. Both
  succeed; the total is the number of matching rows and the page is a slice of the
  matching rows, so the total is at least the number of returned rows, and the route's
  \<open>hasMore\<close> is \<open>offset + number of returned rows < total\<close>.
\<close>

theorem search_count_agrees_with_rows:
  assumes "wf_db d"
  shows "\<exists>resp. searchRoute (pg_store holds g d) params =
             ([countCall params, rowsCall params], Inr resp) \<and>
           fst (countCall params) = CountSQL (conditions (buildWhere params)) \<and>
           fst (rowsCall params) = SearchSQL (conditions (buildWhere params))
               (paramIndex (buildWhere params)) (paramIndex (buildWhere params) + 1) \<and>
           snd (rowsCall params) =
             snd (countCall params) @
               [VNum (real (effLimit params)), VNum (real (effOffset params))] \<and>
           pag_total (sr_pagination resp) = length (matching holds d params) \<and>
           sr_data resp =
             map listItem (map selectRow (take (effLimit params) (drop (effOffset params)
                (sort_key (\<lambda>j. priceKey (j_v j)) (matching holds d params))))) \<and>
           length (sr_data resp) \<le> pag_total (sr_pagination resp) \<and>
           pag_hasMore (sr_pagination resp) =
             (effOffset params + length (sr_data resp) < pag_total (sr_pagination resp))"
proof -
  have c: "length (remdups (map (\<lambda>j. p_id (j_p j)) (matching holds d params))) =
           length (matching holds d params)"
    by (simp add: matching_def count_distinct_rows[OF assms])
  have calls: "fst (countCall params) = CountSQL (conditions (buildWhere params)) \<and>
           fst (rowsCall params) = SearchSQL (conditions (buildWhere params))
               (paramIndex (buildWhere params)) (paramIndex (buildWhere params) + 1) \<and>
           snd (rowsCall params) =
             snd (countCall params) @
               [VNum (real (effLimit params)), VNum (real (effOffset params))]"
    by (simp add: countCall_def rowsCall_def Let_def)
  show ?thesis
    using calls by (simp add: searchRoute_def searchParcels_pg c natOr_offset)
qed

text \<open>
  The claim at a database of three parcels, two of them of at least 10 acres, with the
  filter \<open>minAreaAcres = 10\<close> and \<open>limit = 1\<close>: both queries carry the same two
  conditions, the total is 2, one row is returned and \<open>hasMore\<close> is true.
\<close>

theorem search_count_agrees_with_rows_witness:
  "wf_db dbAB \<and>
   fst (searchRoute (pg_store exampleHolds exampleGis dbAB) largeParcelsPage) =
     [(CountSQL [[Txt ''1=1''], [Txt ''p.area_acres >= '', Ph 1, Txt []]], [VNum 10]),
      (SearchSQL [[Txt ''1=1''], [Txt ''p.area_acres >= '', Ph 1, Txt []]] 2 3,
       [VNum 10, VNum 1, VNum 0])] \<and>
   map_sum id (\<lambda>r. (map i_id (sr_data r), sr_pagination r))
     (snd (searchRoute (pg_store exampleHolds exampleGis dbAB) largeParcelsPage)) =
     Inr ([''a''], \<lparr>pag_total = 2, pag_limit = 1, pag_offset = 0, pag_hasMore = True\<rparr>)"
proof -
  have h: "wf_db dbAB"
    by (simp add: wf_db_def dbAB_def exampleParcel_def)
  show ?thesis
    using h search_count_agrees_with_rows [OF h, of exampleHolds exampleGis largeParcelsPage]
    by (simp add: searchRoute_def service_defs store_defs example_defs natOr_def Let_def)
qed

section \<open>Tolerance, omitted fields, caps, statistics and item mapping\<close>

text \<open>
  Claim C5. The simplification tolerance is a step function of the zoom level that
  never increases as the zoom grows: for \<open>z1 < z2\<close> the tolerance at \<open>z2\<close> is at most
  the tolerance at \<open>z1\<close>. An absent zoom is treated as 12 (tolerance 0.0001). The
  function has no failing input: a zoom below 0 or above 22 gets the tolerance of the
  nearest end of that range. The tolerance is the first value bound by the GeoJSON query.
\<close>

theorem tolerance_step_monotone:
  "(z1 < z2 \<longrightarrow> tolerance (Some z2) \<le> tolerance (Some z1)) \<and>
   tolerance None = tolerance (Some 12) \<and>
   tolerance None = 0.0001 \<and>
   tolerance (Some z) = tolerance (Some (max 0 (min 22 z))) \<and>
   tolerance (Some z) = (if z < 10 then 0.001 else if z < 14 then 0.0001 else 0.00001) \<and>
   fst (getParcelGeoJSON st bbox) =
     [(GeoJSONSQL, [VNum (tolerance (zoom bbox)), VNum (west bbox), VNum (south bbox),
                    VNum (east bbox), VNum (north bbox)])]"
  by (auto simp: tolerance_def getParcelGeoJSON_def Let_def max_def min_def split: sum.splits)

text \<open>The claim at zoom 5 and 15, and at the out-of-range zooms 30 and -3.\<close>

theorem tolerance_step_monotone_witness:
  "(5::real) < 15 \<and> tolerance (Some 15) \<le> tolerance (Some 5) \<and>
   tolerance (Some 5) = 0.001 \<and> tolerance (Some 15) = 0.00001 \<and>
   tolerance (Some 30) = tolerance (Some 22) \<and> tolerance (Some (- 3)) = tolerance (Some 0)"
  using tolerance_step_monotone [of 5 15 30] tolerance_step_monotone [of 5 15 "- 3"]
  by (simp add: tolerance_def)

lemma ifDefined_None: "ifDefined mk x = None \<longleftrightarrow> x = None"
  by (cases x) (simp_all add: ifDefined_def)

lemma ifNonEmpty_None: "ifNonEmpty xs = None \<longleftrightarrow> xs = None \<or> xs = Some []"
  by (cases xs) (simp_all add: ifNonEmpty_def)

lemma ifTruthy_None: "ifTruthy c = None \<longleftrightarrow> c = None \<or> c = Some []"
  by (cases c) (simp_all add: ifTruthy_def)

lemma length_vals_pushWhen:
  "length (vals (pushWhen g pre post b)) = length (vals b) + of_bool (g \<noteq> None)"
  by (cases g) (simp_all add: pushWhen_def push_def)

lemma Txt_pushWhen:
  "Txt t \<in> set (concat (conditions (pushWhen g pre post b))) \<longleftrightarrow>
     Txt t \<in> set (concat (conditions b)) \<or> (g \<noteq> None \<and> (t = pre \<or> t = post))"
  by (cases g) (auto simp: pushWhen_def push_def)

lemma VStrs_pushWhen:
  "VStrs [] \<in> set (vals (pushWhen g pre post b)) \<longleftrightarrow>
     VStrs [] \<in> set (vals b) \<or> g = Some (VStrs [])"
  by (cases g) (auto simp: pushWhen_def push_def)

lemma guards_never_empty_array:
  "ifDefined VNum x \<noteq> Some (VStrs [])" "ifDefined VBool y \<noteq> Some (VStrs [])"
  "ifNonEmpty xs \<noteq> Some (VStrs [])" "ifTruthy c \<noteq> Some (VStrs [])"
  by (simp_all add: ifDefined_def ifNonEmpty_def ifTruthy_def split: option.splits)

lemma no_empty_array_bound: "VStrs [] \<notin> set (vals (buildWhere params))"
  unfolding buildWhere_def Let_def
  by (simp add: VStrs_pushWhen guards_never_empty_array)

lemma count_bound_values:
  "length (vals (buildWhere params)) =
     sum_list (map of_bool
       [minAreaAcres params \<noteq> None, maxAreaAcres params \<noteq> None,
        minPrice params \<noteq> None, maxPrice params \<noteq> None,
        zoningCodes params \<noteq> None \<and> zoningCodes params \<noteq> Some [],
        soilTypes params \<noteq> None \<and> soilTypes params \<noteq> Some [],
        croplandClasses params \<noteq> None \<and> croplandClasses params \<noteq> Some [],
        hasWaterAccess params \<noteq> None, hasRoadAccess params \<noteq> None,
        city params \<noteq> None \<and> city params \<noteq> Some []])"
  unfolding buildWhere_def Let_def
  by (simp add: length_vals_pushWhen ifDefined_None ifNonEmpty_None ifTruthy_None)

lemma buildWhere_empty_sets:
  "buildWhere (params\<lparr>zoningCodes := Some []\<rparr>) = buildWhere (params\<lparr>zoningCodes := None\<rparr>)"
  "buildWhere (params\<lparr>soilTypes := Some []\<rparr>) = buildWhere (params\<lparr>soilTypes := None\<rparr>)"
  "buildWhere (params\<lparr>croplandClasses := Some []\<rparr>) =
   buildWhere (params\<lparr>croplandClasses := None\<rparr>)"
  by (simp_all add: buildWhere_def ifNonEmpty_def)

lemma searchParcels_cong:
  assumes "buildWhere p = buildWhere q" "limit p = limit q" "offset p = offset q"
  shows "searchParcels st p = searchParcels st q"
proof -
  have c: "countCall p = countCall q"
    using assms by (simp add: countCall_def)
  have r: "rowsCall p = rowsCall q"
    using assms by (simp add: rowsCall_def effLimit_def effOffset_def)
  show ?thesis
    by (simp only: searchParcels_def c r)
qed

lemma absent_fields_no_fragment:
  "Txt ''p.area_acres >= '' \<notin>
     set (concat (conditions (buildWhere (params\<lparr>minAreaAcres := None\<rparr>))))"
  "Txt ''p.area_acres <= '' \<notin>
     set (concat (conditions (buildWhere (params\<lparr>maxAreaAcres := None\<rparr>))))"
  "Txt ''v.estimated_price >= '' \<notin>
     set (concat (conditions (buildWhere (params\<lparr>minPrice := None\<rparr>))))"
  "Txt ''v.estimated_price <= '' \<notin>
     set (concat (conditions (buildWhere (params\<lparr>maxPrice := None\<rparr>))))"
  "Txt ''ld.zoning_code = ANY('' \<notin>
     set (concat (conditions (buildWhere (params\<lparr>zoningCodes := None\<rparr>))))"
  "Txt ''ld.soil_type = ANY('' \<notin>
     set (concat (conditions (buildWhere (params\<lparr>soilTypes := None\<rparr>))))"
  "Txt ''ld.cropland_class = ANY('' \<notin>
     set (concat (conditions (buildWhere (params\<lparr>croplandClasses := None\<rparr>))))"
  "Txt ''ld.has_water_access = '' \<notin>
     set (concat (conditions (buildWhere (params\<lparr>hasWaterAccess := None\<rparr>))))"
  "Txt ''ld.has_road_access = '' \<notin>
     set (concat (conditions (buildWhere (params\<lparr>hasRoadAccess := None\<rparr>))))"
  "Txt ''LOWER(p.city) LIKE LOWER('' \<notin>
     set (concat (conditions (buildWhere (params\<lparr>city := None\<rparr>))))"
  unfolding buildWhere_def Let_def
  by (simp_all add: Txt_pushWhen ifDefined_None ifNonEmpty_None ifTruthy_None del: set_concat)

text \<open>
  Claim C7. An empty array in a set-membership field (\<open>zoningCodes\<close>, \<open>soilTypes\<close>,
  \<open>croplandClasses\<close>) compiles like the absent field: the builder's result, and with it
  the whole Search, is the same as without the field, so it constrains nothing. An absent
  field contributes no condition (the text of its condition does not occur in the WHERE
  clause), an empty array is never bound as a value, and the number of bound values is
  the number of fields that are present and, for the arrays and the city, not empty.
\<close>

theorem empty_and_absent_fields_omitted:
  "buildWhere (params\<lparr>zoningCodes := Some []\<rparr>) = buildWhere (params\<lparr>zoningCodes := None\<rparr>) \<and>
   buildWhere (params\<lparr>soilTypes := Some []\<rparr>) = buildWhere (params\<lparr>soilTypes := None\<rparr>) \<and>
   buildWhere (params\<lparr>croplandClasses := Some []\<rparr>) =
     buildWhere (params\<lparr>croplandClasses := None\<rparr>) \<and>
   searchParcels st (params\<lparr>zoningCodes := Some []\<rparr>) =
     searchParcels st (params\<lparr>zoningCodes := None\<rparr>) \<and>
   searchParcels st (params\<lparr>soilTypes := Some []\<rparr>) =
     searchParcels st (params\<lparr>soilTypes := None\<rparr>) \<and>
   searchParcels st (params\<lparr>croplandClasses := Some []\<rparr>) =
     searchParcels st (params\<lparr>croplandClasses := None\<rparr>) \<and>
   Txt ''ld.zoning_code = ANY('' \<notin>
     set (concat (conditions (buildWhere (params\<lparr>zoningCodes := Some []\<rparr>)))) \<and>
   Txt ''ld.soil_type = ANY('' \<notin>
     set (concat (conditions (buildWhere (params\<lparr>soilTypes := Some []\<rparr>)))) \<and>
   Txt ''ld.cropland_class = ANY('' \<notin>
     set (concat (conditions (buildWhere (params\<lparr>croplandClasses := Some []\<rparr>)))) \<and>
   Txt ''p.area_acres >= '' \<notin>
     set (concat (conditions (buildWhere (params\<lparr>minAreaAcres := None\<rparr>)))) \<and>
   Txt ''p.area_acres <= '' \<notin>
     set (concat (conditions (buildWhere (params\<lparr>maxAreaAcres := None\<rparr>)))) \<and>
   Txt ''v.estimated_price >= '' \<notin>
     set (concat (conditions (buildWhere (params\<lparr>minPrice := None\<rparr>)))) \<and>
   Txt ''v.estimated_price <= '' \<notin>
     set (concat (conditions (buildWhere (params\<lparr>maxPrice := None\<rparr>)))) \<and>
   Txt ''ld.zoning_code = ANY('' \<notin>
     set (concat (conditions (buildWhere (params\<lparr>zoningCodes := None\<rparr>)))) \<and>
   Txt ''ld.soil_type = ANY('' \<notin>
     set (concat (conditions (buildWhere (params\<lparr>soilTypes := None\<rparr>)))) \<and>
   Txt ''ld.cropland_class = ANY('' \<notin>
     set (concat (conditions (buildWhere (params\<lparr>croplandClasses := None\<rparr>)))) \<and>
   Txt ''ld.has_water_access = '' \<notin>
     set (concat (conditions (buildWhere (params\<lparr>hasWaterAccess := None\<rparr>)))) \<and>
   Txt ''ld.has_road_access = '' \<notin>
     set (concat (conditions (buildWhere (params\<lparr>hasRoadAccess := None\<rparr>)))) \<and>
   Txt ''LOWER(p.city) LIKE LOWER('' \<notin>
     set (concat (conditions (buildWhere (params\<lparr>city := None\<rparr>)))) \<and>
   VStrs [] \<notin> set (vals (buildWhere params)) \<and>
   length (vals (buildWhere params)) =
     sum_list (map of_bool
       [minAreaAcres params \<noteq> None, maxAreaAcres params \<noteq> None,
        minPrice params \<noteq> None, maxPrice params \<noteq> None,
        zoningCodes params \<noteq> None \<and> zoningCodes params \<noteq> Some [],
        soilTypes params \<noteq> None \<and> soilTypes params \<noteq> Some [],
        croplandClasses params \<noteq> None \<and> croplandClasses params \<noteq> Some [],
        hasWaterAccess params \<noteq> None, hasRoadAccess params \<noteq> None,
        city params \<noteq> None \<and> city params \<noteq> Some []]) \<and>
   length (conditions (buildWhere params)) = 1 + length (vals (buildWhere params)) \<and>
   buildWhere noFilter = \<lparr>conditions = [[Txt ''1=1'']], vals = [], paramIndex = 1\<rparr>"
proof -
  have len: "length (conditions (buildWhere params)) = 1 + length (vals (buildWhere params))"
    using conditions_seed[OF indexed_buildWhere, of params]
          length_conditions_indexed[OF indexed_buildWhere, of params]
    by (metis length_Cons plus_1_eq_Suc)
  have none: "buildWhere noFilter = \<lparr>conditions = [[Txt ''1=1'']], vals = [], paramIndex = 1\<rparr>"
    by (simp add: buildWhere_def noFilter_def pushWhen_def ifDefined_def ifNonEmpty_def
          ifTruthy_def)
  have s: "searchParcels st (params\<lparr>zoningCodes := Some []\<rparr>) =
             searchParcels st (params\<lparr>zoningCodes := None\<rparr>)"
          "searchParcels st (params\<lparr>soilTypes := Some []\<rparr>) =
             searchParcels st (params\<lparr>soilTypes := None\<rparr>)"
          "searchParcels st (params\<lparr>croplandClasses := Some []\<rparr>) =
             searchParcels st (params\<lparr>croplandClasses := None\<rparr>)"
    by (rule searchParcels_cong; simp add: buildWhere_empty_sets)+
  show ?thesis
    using len none s no_empty_array_bound[of params] count_bound_values[of params]
      absent_fields_no_fragment[of params]
    by (simp only: buildWhere_empty_sets simp_thms)
qed

text \<open>
  Claim C8. Both bounding-box queries end in \<^verbatim>\<open>LIMIT 500\<close> and the service maps the
  store's rows one to one: for every database and every bounding box, the list query and
  the feature query return at most 500 results, and so do the two routes when they accept
  the request.
\<close>

theorem bbox_queries_capped:
  "(\<exists>items. snd (getParcelsInBBox (pg_store holds g d) bbox) = Inr items \<and>
      length items \<le> 500) \<and>
   (\<exists>fs. snd (getParcelGeoJSON (pg_store holds g d) bbox) = Inr fs \<and> length fs \<le> 500) \<and>
   (\<exists>items n. snd (listRoute (pg_store holds g d) raw) = Inl ValidationError \<or>
       snd (listRoute (pg_store holds g d) raw) = Inr (items, n) \<and>
       length items \<le> 500 \<and> n \<le> 500) \<and>
   (\<exists>fs n. snd (bboxRoute (pg_store holds g d) raw) = Inl ValidationError \<or>
       snd (bboxRoute (pg_store holds g d) raw) = Inr (fs, n) \<and>
       length fs \<le> 500 \<and> n \<le> 500)"
  by (auto simp: getParcelsInBBox_def getParcelGeoJSON_def pg_store_def pg_bbox_def
        pg_features_def listRoute_def bboxRoute_def validate_def Let_def split: option.splits)

lemma length_priced: "length (pricedParcels d) \<le> length (parcels d)"
proof -
  have "length (concat (map (\<lambda>p. case latest d (p_id p) of None \<Rightarrow> [] | Some x \<Rightarrow> [x]) ps))
          \<le> length ps" for ps
    by (induction ps) (auto split: option.splits)
  then show ?thesis
    by (simp add: pricedParcels_def)
qed

lemma numOrZero_avg:
  "numOrZero (sqlAvg xs) = (if xs = [] then 0 else sum_list xs / real (length xs))"
  by (simp add: numOrZero_def sqlAvg_def)

lemma getParcelStats_pg:
  "getParcelStats (pg_store holds g d) =
     ([(StatsSQL, []), (ZoningSQL, [])],
      Inr \<lparr>totalParcels = length (remdups (map p_id (parcels d))),
           totalAreaAcres = numOrZero (sqlSum (map p_area_acres (parcels d))),
           averagePrice = numOrZero (sqlAvg (pricedParcels d)),
           minPriceStat = numOrZero (sqlMin (pricedParcels d)),
           maxPriceStat = numOrZero (sqlMax (pricedParcels d)),
           averageAreaAcres = numOrZero (sqlAvg (map p_area_acres (parcels d))),
           zoningBreakdown = pg_zoning d\<rparr>)"
  by (simp add: getParcelStats_def pg_store_def pg_stats_def)

text \<open>
  Claim C9. Over an empty parcels table Stats succeeds with \<open>totalParcels = 0\<close> and
  with the average, minimum and maximum price all equal to 0 (the aggregates are NULL
  and \<^verbatim>\<open>|| 0\<close> turns NULL into 0; nothing is divided by zero). Over every database
  whose parcel ids are unique (the primary key), Stats succeeds, \<open>totalParcels\<close> is the
  number of parcels and is at least the number of parcels whose latest price enters the
  average.
\<close>

theorem stats_on_empty_and_total:
  "(parcels d = [] \<longrightarrow>
      snd (getParcelStats (pg_store holds g d)) =
        Inr \<lparr>totalParcels = 0, totalAreaAcres = 0, averagePrice = 0, minPriceStat = 0,
             maxPriceStat = 0, averageAreaAcres = 0, zoningBreakdown = []\<rparr>) \<and>
   (distinct (map p_id (parcels d)) \<longrightarrow>
      (\<exists>s. snd (getParcelStats (pg_store holds g d)) = Inr s \<and>
           totalParcels s = length (parcels d) \<and>
           length (pricedParcels d) \<le> totalParcels s \<and>
           averagePrice s =
             (if pricedParcels d = [] then 0
              else sum_list (pricedParcels d) / real (length (pricedParcels d)))))"
proof (intro conjI impI)
  assume "parcels d = []"
  then show "snd (getParcelStats (pg_store holds g d)) =
        Inr \<lparr>totalParcels = 0, totalAreaAcres = 0, averagePrice = 0, minPriceStat = 0,
             maxPriceStat = 0, averageAreaAcres = 0, zoningBreakdown = []\<rparr>"
    by (simp add: getParcelStats_pg pricedParcels_def sqlSum_def sqlAvg_def sqlMin_def sqlMax_def
          numOrZero_def pg_zoning_def zoningCodesOf_def)
next
  assume "distinct (map p_id (parcels d))"
  then have "length (remdups (map p_id (parcels d))) = length (parcels d)"
    by (simp add: distinct_remdups_id)
  then show "\<exists>s. snd (getParcelStats (pg_store holds g d)) = Inr s \<and>
           totalParcels s = length (parcels d) \<and>
           length (pricedParcels d) \<le> totalParcels s \<and>
           averagePrice s =
             (if pricedParcels d = [] then 0
              else sum_list (pricedParcels d) / real (length (pricedParcels d)))"
    using length_priced[of d] by (simp add: getParcelStats_pg numOrZero_avg)
qed

text \<open>
  The claim at the empty database and at three parcels of which two have a valuation.
\<close>

theorem stats_on_empty_and_total_witness:
  "parcels emptyDb = [] \<and>
   snd (getParcelStats (pg_store exampleHolds exampleGis emptyDb)) =
        Inr \<lparr>totalParcels = 0, totalAreaAcres = 0, averagePrice = 0, minPriceStat = 0,
             maxPriceStat = 0, averageAreaAcres = 0, zoningBreakdown = []\<rparr> \<and>
   distinct (map p_id (parcels dbAB)) \<and>
   snd (getParcelStats (pg_store exampleHolds exampleGis dbAB)) =
        Inr \<lparr>totalParcels = 3, totalAreaAcres = 32, averagePrice = 100, minPriceStat = 100,
             maxPriceStat = 100, averageAreaAcres = 32 / 3, zoningBreakdown = []\<rparr> \<and>
   length (pricedParcels dbAB) = 2"
  using stats_on_empty_and_total [of emptyDb exampleHolds exampleGis]
        stats_on_empty_and_total [of dbAB exampleHolds exampleGis]
  by (simp add: getParcelStats_pg pricedParcels_def sqlSum_def sqlAvg_def sqlMin_def sqlMax_def
          numOrZero_def pg_zoning_def zoningCodesOf_def latest_def example_defs)

text \<open>
  Claim C10. In the three list-shaped results the items are the store's rows mapped by
  the same literal. It reports a row whose estimated price is exactly 0 without
  \<open>estimatedPrice\<close>, as the same item as the row without a valuation, and reports a row
  with a null centroid with \<open>centroidLat = 0\<close> and \<open>centroidLng = 0\<close>: \<^verbatim>\<open>|| undefined\<close>
  and \<^verbatim>\<open>|| 0\<close> replace every falsy value.
\<close>

theorem list_items_coerce_falsy:
  "i_estimatedPrice (listItem (r\<lparr>r_estimated_price := Some x\<rparr>)) =
     (if x = 0 then None else Some x) \<and>
   listItem (r\<lparr>r_estimated_price := Some 0\<rparr>) = listItem (r\<lparr>r_estimated_price := None\<rparr>) \<and>
   i_centroidLat (listItem (r\<lparr>r_centroid_lat := None\<rparr>)) = 0 \<and>
   i_centroidLng (listItem (r\<lparr>r_centroid_lng := None\<rparr>)) = 0 \<and>
   snd (getParcelsInBBox st bbox) =
     map_sum id (map listItem)
       (queryList st (BBoxListSQL,
          [VNum (west bbox), VNum (south bbox), VNum (east bbox), VNum (north bbox)])) \<and>
   snd (searchParcels st params) =
     (case queryCount st (countCall params) of
        Inl e \<Rightarrow> Inl e
      | Inr n \<Rightarrow> map_sum id (\<lambda>rows. (map listItem rows, n)) (queryList st (rowsCall params))) \<and>
   snd (getParcelsNearPoint st lng lat radiusMeters lmt) =
     map_sum id (map (\<lambda>p. (listItem (fst p), snd p)))
       (queryNear st (NearSQL, [VNum lng, VNum lat, VNum radiusMeters,
                                VNum (case lmt of None \<Rightarrow> 20 | Some l \<Rightarrow> l)]))"
  by (auto simp: listItem_def numOrUndefined_def numOrZero_def getParcelsInBBox_def
        searchParcels_def getParcelsNearPoint_def nearItem_def Let_def split: sum.splits)

end
